theory Spec2Isabelle
  imports Complex_Main "HOL-Library.Word"
begin

section \<open>The host argument bundle and the Rcpp interface\<close>

text \<open>
  \<^verbatim>\<open>System::load(Rcpp::List args)\<close> reads a named list of host (R) values. A read
  \<^verbatim>\<open>args["name"]\<close> of an \<^verbatim>\<open>Rcpp::List\<close> scans the names from the front, yields the
  element under the first name that matches, and throws \<^verbatim>\<open>Rcpp::index_out_of_bounds\<close>
  when no element carries the name. A conversion of a host value to a C++ type either
  yields the value or throws. Both exceptions are values of \<open>error\<close>.
\<close>

datatype error = index_out_of_bounds string | not_compatible

type_synonym 'v Rcpp_List = "(string \<times> 'v) list"

definition List_get :: "'v Rcpp_List \<Rightarrow> string \<Rightarrow> error + 'v" where
  "List_get l name =
     (case map_of l name of
        None \<Rightarrow> Inl (index_out_of_bounds name)
      | Some v \<Rightarrow> Inr v)"

text \<open>
  The conversions that \<^verbatim>\<open>load\<close> calls are declared in \<^verbatim>\<open>misc_v4.h\<close> and in Rcpp,
  neither of which is among the sources. They are parameters of the model: \<open>as_List\<close>
  is the construction of an \<^verbatim>\<open>Rcpp::List\<close> from a list element, the others carry the
  names the source calls them by. \<open>'v\<close> is the type of host values, \<open>'r\<close> the type
  of a \<^verbatim>\<open>double\<close>: \<^verbatim>\<open>load\<close> copies doubles and never computes with them. A C++
  \<^verbatim>\<open>int\<close> is a 32-bit word, read as signed by \<open>sint\<close>. Here a conversion is a function
  of the host value it is given: it yields a new C++ value or throws, and changes
  nothing. The model of the call in the program state, further down, lets a conversion
  write.
\<close>

record ('v, 'r) Rcpp =
  as_List :: "'v \<Rightarrow> error + 'v Rcpp_List"
  rcpp_to_vector_double :: "'v \<Rightarrow> error + 'r list"
  rcpp_to_vector_int :: "'v \<Rightarrow> error + 32 word list"
  rcpp_to_vector_bool :: "'v \<Rightarrow> error + bool list"
  rcpp_to_int :: "'v \<Rightarrow> error + 32 word"
  rcpp_to_double :: "'v \<Rightarrow> error + 'r"
  rcpp_to_bool :: "'v \<Rightarrow> error + bool"

text \<open>\<open>arg conv l name\<close> is the expression \<^verbatim>\<open>conv(l["name"])\<close>: the read, then the
  conversion; whichever throws first ends it.\<close>

definition arg :: "('v \<Rightarrow> error + 'a) \<Rightarrow> 'v Rcpp_List \<Rightarrow> string \<Rightarrow> error + 'a" where
  "arg conv l name = (case List_get l name of Inl e \<Rightarrow> Inl e | Inr v \<Rightarrow> conv v)"

section \<open>The System object\<close>

text \<open>
  Modelled from the spec: the class declaration \<^verbatim>\<open>System.h\<close> is not among the sources,
  so the declared types of the fields are not visible. The record has the fields that
  \<^verbatim>\<open>load\<close> assigns, in the order of their assignment; each has the type that its
  conversion returns, and \<open>d\<close>, which the spec calls the dimension (the length of the
  parameter sequences), is a natural number. Any other member of the class is the
  record's extension part \<open>System.more\<close>.
\<close>

record 'r System =
  x :: "'r list"
  theta_init :: "'r list"
  theta_min :: "'r list"
  theta_max :: "'r list"
  trans_type :: "32 word list"
  d :: nat
  burnin :: "32 word list"
  samples :: "32 word"
  rungs :: "32 word"
  burnin_phases :: "32 word"
  bw_update :: "bool list"
  cov_update :: "bool list"
  coupling_on :: "bool list"
  GTI_pow :: 'r
  chain :: "32 word"
  pb_markdown :: bool
  silent :: bool

section \<open>Statements that may throw\<close>

text \<open>
  A member function either returns, leaving the object in a new state, or throws, leaving
  it in the state reached when the exception left the function: the assignments made
  before the throw stay made.
\<close>

datatype 's outcome = Returns 's | Throws error 's

text \<open>\<^verbatim>\<open>field = rhs;\<close> evaluates \<open>rhs\<close> first; the field is stored only if that
  did not throw.\<close>

definition assign :: "(error + 'a) \<Rightarrow> ('a \<Rightarrow> 's \<Rightarrow> 's) \<Rightarrow> 's \<Rightarrow> 's outcome" where
  "assign rhs store s =
     (case rhs of Inl e \<Rightarrow> Throws e s | Inr v \<Rightarrow> Returns (store v s))"

text \<open>A block runs its statements in order and ends at the first one that throws.\<close>

fun run :: "('s \<Rightarrow> 's outcome) list \<Rightarrow> 's \<Rightarrow> 's outcome" where
  "run [] s = Returns s"
| "run (st # sts) s =
     (case st s of Returns s' \<Rightarrow> run sts s' | Throws e s' \<Rightarrow> Throws e s')"

text \<open>The state of the object once the call is over, however it ended.\<close>

fun final_state :: "'s outcome \<Rightarrow> 's" where
  "final_state (Returns s) = s"
| "final_state (Throws e s) = s"

section \<open>System::load\<close>

text \<open>Lines 10 to 13: the four local lists. Only \<^verbatim>\<open>args_params\<close> is used afterwards.\<close>

definition split_argument_lists :: "('v, 'r) Rcpp \<Rightarrow> 'v Rcpp_List \<Rightarrow> error + 'v Rcpp_List" where
  "split_argument_lists R args =
     (case arg (as_List R) args ''args_params'' of
        Inl e \<Rightarrow> Inl e
      | Inr args_params \<Rightarrow>
         (case arg (as_List R) args ''args_functions'' of
            Inl e \<Rightarrow> Inl e
          | Inr args_functions \<Rightarrow>
             (case arg (as_List R) args ''args_progress'' of
                Inl e \<Rightarrow> Inl e
              | Inr args_progress \<Rightarrow>
                 (case arg (as_List R) args_progress ''pb_burnin'' of
                    Inl e \<Rightarrow> Inl e
                  | Inr args_progress_burnin \<Rightarrow> Inr args_params))))"

text \<open>Lines 16 to 38: the assignments, one statement each, in the source's order.\<close>

definition load_params ::
  "('v, 'r) Rcpp \<Rightarrow> 'v Rcpp_List \<Rightarrow> (('r, 'z) System_scheme \<Rightarrow> ('r, 'z) System_scheme outcome) list" where
  "load_params R args_params =
     [assign (arg (rcpp_to_vector_double R) args_params ''x'') (\<lambda>v s. s\<lparr>x := v\<rparr>),
      assign (arg (rcpp_to_vector_double R) args_params ''theta_init'') (\<lambda>v s. s\<lparr>theta_init := v\<rparr>),
      assign (arg (rcpp_to_vector_double R) args_params ''theta_min'') (\<lambda>v s. s\<lparr>theta_min := v\<rparr>),
      assign (arg (rcpp_to_vector_double R) args_params ''theta_max'') (\<lambda>v s. s\<lparr>theta_max := v\<rparr>),
      assign (arg (rcpp_to_vector_int R) args_params ''trans_type'') (\<lambda>v s. s\<lparr>trans_type := v\<rparr>),
      (\<lambda>s. Returns (s\<lparr>d := length (theta_init s)\<rparr>)),
      assign (arg (rcpp_to_vector_int R) args_params ''burnin'') (\<lambda>v s. s\<lparr>burnin := v\<rparr>),
      assign (arg (rcpp_to_int R) args_params ''samples'') (\<lambda>v s. s\<lparr>samples := v\<rparr>),
      assign (arg (rcpp_to_int R) args_params ''rungs'') (\<lambda>v s. s\<lparr>rungs := v\<rparr>),
      assign (arg (rcpp_to_int R) args_params ''burnin_phases'') (\<lambda>v s. s\<lparr>burnin_phases := v\<rparr>),
      assign (arg (rcpp_to_vector_bool R) args_params ''bw_update'') (\<lambda>v s. s\<lparr>bw_update := v\<rparr>),
      assign (arg (rcpp_to_vector_bool R) args_params ''cov_update'') (\<lambda>v s. s\<lparr>cov_update := v\<rparr>),
      assign (arg (rcpp_to_vector_bool R) args_params ''coupling_on'') (\<lambda>v s. s\<lparr>coupling_on := v\<rparr>),
      assign (arg (rcpp_to_double R) args_params ''GTI_pow'') (\<lambda>v s. s\<lparr>GTI_pow := v\<rparr>),
      assign (arg (rcpp_to_int R) args_params ''chain'') (\<lambda>v s. s\<lparr>chain := v\<rparr>),
      assign (arg (rcpp_to_bool R) args_params ''pb_markdown'') (\<lambda>v s. s\<lparr>pb_markdown := v\<rparr>),
      assign (arg (rcpp_to_bool R) args_params ''silent'') (\<lambda>v s. s\<lparr>silent := v\<rparr>)]"

definition load ::
  "('v, 'r) Rcpp \<Rightarrow> 'v Rcpp_List \<Rightarrow> ('r, 'z) System_scheme \<Rightarrow> ('r, 'z) System_scheme outcome" where
  "load R args this =
     (case split_argument_lists R args of
        Inl e \<Rightarrow> Throws e this
      | Inr args_params \<Rightarrow> run (load_params R args_params) this)"

text \<open>The names that lines 16 to 38 read from \<^verbatim>\<open>args_params\<close>.\<close>

definition config_fields :: "string list" where
  "config_fields =
     [''x'', ''theta_init'', ''theta_min'', ''theta_max'', ''trans_type'', ''burnin'',
      ''samples'', ''rungs'', ''burnin_phases'', ''bw_update'', ''cov_update'',
      ''coupling_on'', ''GTI_pow'', ''chain'', ''pb_markdown'', ''silent'']"

text \<open>\<open>params_read R args_params cfg\<close>: each of the sixteen entries is present in
  \<open>args_params\<close> and converts, and the fields of \<open>cfg\<close> are the converted values.\<close>

definition params_read :: "('v, 'r) Rcpp \<Rightarrow> 'v Rcpp_List \<Rightarrow> ('r, 'z) System_scheme \<Rightarrow> bool" where
  "params_read R args_params cfg \<longleftrightarrow>
     arg (rcpp_to_vector_double R) args_params ''x'' = Inr (x cfg) \<and>
     arg (rcpp_to_vector_double R) args_params ''theta_init'' = Inr (theta_init cfg) \<and>
     arg (rcpp_to_vector_double R) args_params ''theta_min'' = Inr (theta_min cfg) \<and>
     arg (rcpp_to_vector_double R) args_params ''theta_max'' = Inr (theta_max cfg) \<and>
     arg (rcpp_to_vector_int R) args_params ''trans_type'' = Inr (trans_type cfg) \<and>
     arg (rcpp_to_vector_int R) args_params ''burnin'' = Inr (burnin cfg) \<and>
     arg (rcpp_to_int R) args_params ''samples'' = Inr (samples cfg) \<and>
     arg (rcpp_to_int R) args_params ''rungs'' = Inr (rungs cfg) \<and>
     arg (rcpp_to_int R) args_params ''burnin_phases'' = Inr (burnin_phases cfg) \<and>
     arg (rcpp_to_vector_bool R) args_params ''bw_update'' = Inr (bw_update cfg) \<and>
     arg (rcpp_to_vector_bool R) args_params ''cov_update'' = Inr (cov_update cfg) \<and>
     arg (rcpp_to_vector_bool R) args_params ''coupling_on'' = Inr (coupling_on cfg) \<and>
     arg (rcpp_to_double R) args_params ''GTI_pow'' = Inr (GTI_pow cfg) \<and>
     arg (rcpp_to_int R) args_params ''chain'' = Inr (chain cfg) \<and>
     arg (rcpp_to_bool R) args_params ''pb_markdown'' = Inr (pb_markdown cfg) \<and>
     arg (rcpp_to_bool R) args_params ''silent'' = Inr (silent cfg)"

text \<open>The object \<open>this\<close> with the seventeen fields overwritten from \<open>cfg\<close>, and \<open>d\<close>
  set as line 23 sets it.\<close>

definition assigned :: "('r, 'y) System_scheme \<Rightarrow> ('r, 'z) System_scheme \<Rightarrow> ('r, 'z) System_scheme" where
  "assigned cfg this =
     this\<lparr>x := x cfg, theta_init := theta_init cfg, theta_min := theta_min cfg,
       theta_max := theta_max cfg, trans_type := trans_type cfg,
       d := length (theta_init cfg), burnin := burnin cfg, samples := samples cfg,
       rungs := rungs cfg, burnin_phases := burnin_phases cfg, bw_update := bw_update cfg,
       cov_update := cov_update cfg, coupling_on := coupling_on cfg, GTI_pow := GTI_pow cfg,
       chain := chain cfg, pb_markdown := pb_markdown cfg, silent := silent cfg\<rparr>"

text \<open>The reads of lines 11 to 13 succeed: \<^verbatim>\<open>args_functions\<close> is there and is a list,
  \<^verbatim>\<open>args_progress\<close> is there and is a list, and that list holds \<^verbatim>\<open>pb_burnin\<close>, a
  list.\<close>

definition entries_present :: "('v, 'r) Rcpp \<Rightarrow> 'v Rcpp_List \<Rightarrow> bool" where
  "entries_present R args =
     (case arg (as_List R) args ''args_functions'' of
        Inl e \<Rightarrow> False
      | Inr args_functions \<Rightarrow>
         (case arg (as_List R) args ''args_progress'' of
            Inl e \<Rightarrow> False
          | Inr args_progress \<Rightarrow>
             (case arg (as_List R) args_progress ''pb_burnin'' of
                Inl e \<Rightarrow> False
              | Inr args_progress_burnin \<Rightarrow> True)))"

section \<open>A concrete host\<close>

text \<open>
  Host values for concrete bundles: R's \<^verbatim>\<open>NULL\<close>, logical, integer and numeric
  vectors, and named lists. Constructing an \<^verbatim>\<open>Rcpp::List\<close> from a list yields that
  list; from a vector or \<^verbatim>\<open>NULL\<close> Rcpp coerces with R's \<^verbatim>\<open>as.list\<close>, which yields
  the elements one by one, here without names.
\<close>

datatype sexp =
    NILSXP
  | LGLSXP "bool list"
  | INTSXP "32 word list"
  | REALSXP "real list"
  | VECSXP "(string \<times> sexp) list"

fun sexp_as_List :: "sexp \<Rightarrow> error + sexp Rcpp_List" where
  "sexp_as_List (VECSXP l) = Inr l"
| "sexp_as_List NILSXP = Inr []"
| "sexp_as_List (LGLSXP bs) = Inr (map (\<lambda>b. ([], LGLSXP [b])) bs)"
| "sexp_as_List (INTSXP ns) = Inr (map (\<lambda>n. ([], INTSXP [n])) ns)"
| "sexp_as_List (REALSXP rs) = Inr (map (\<lambda>r. ([], REALSXP [r])) rs)"

text \<open>
  Modelled from the spec: the conversions \<^verbatim>\<open>rcpp_to_*\<close> of \<^verbatim>\<open>misc_v4.h\<close> are not
  among the sources; the spec says that the loader copies the parameters into a typed
  record. In the instance below a conversion accepts the host values that already have
  its declared type and returns their content unchanged; it rejects every other value,
  where Rcpp might coerce. The instance serves the concrete bundles, whose entries all
  have the declared types; the general theorems about \<open>load\<close> hold for every choice of
  conversions.
\<close>

text \<open>Modelled from the spec: \<^verbatim>\<open>rcpp_to_vector_double\<close> (\<^verbatim>\<open>misc_v4.h\<close>) on a numeric
  vector.\<close>

fun sexp_to_vector_double :: "sexp \<Rightarrow> error + real list" where
  "sexp_to_vector_double (REALSXP rs) = Inr rs"
| "sexp_to_vector_double _ = Inl not_compatible"

text \<open>Modelled from the spec: \<^verbatim>\<open>rcpp_to_vector_int\<close> (\<^verbatim>\<open>misc_v4.h\<close>) on an integer vector.\<close>

fun sexp_to_vector_int :: "sexp \<Rightarrow> error + 32 word list" where
  "sexp_to_vector_int (INTSXP ns) = Inr ns"
| "sexp_to_vector_int _ = Inl not_compatible"

text \<open>Modelled from the spec: \<^verbatim>\<open>rcpp_to_vector_bool\<close> (\<^verbatim>\<open>misc_v4.h\<close>) on a logical vector.\<close>

fun sexp_to_vector_bool :: "sexp \<Rightarrow> error + bool list" where
  "sexp_to_vector_bool (LGLSXP bs) = Inr bs"
| "sexp_to_vector_bool _ = Inl not_compatible"

text \<open>Modelled from the spec: \<^verbatim>\<open>rcpp_to_int\<close> (\<^verbatim>\<open>misc_v4.h\<close>) on an integer vector of length one.\<close>

fun sexp_to_int :: "sexp \<Rightarrow> error + 32 word" where
  "sexp_to_int (INTSXP [n]) = Inr n"
| "sexp_to_int _ = Inl not_compatible"

text \<open>Modelled from the spec: \<^verbatim>\<open>rcpp_to_double\<close> (\<^verbatim>\<open>misc_v4.h\<close>) on a numeric vector of length one.\<close>

fun sexp_to_double :: "sexp \<Rightarrow> error + real" where
  "sexp_to_double (REALSXP [r]) = Inr r"
| "sexp_to_double _ = Inl not_compatible"

text \<open>Modelled from the spec: \<^verbatim>\<open>rcpp_to_bool\<close> (\<^verbatim>\<open>misc_v4.h\<close>) on a logical vector of length one.\<close>

fun sexp_to_bool :: "sexp \<Rightarrow> error + bool" where
  "sexp_to_bool (LGLSXP [b]) = Inr b"
| "sexp_to_bool _ = Inl not_compatible"

definition Rcpp_strict :: "(sexp, real) Rcpp" where
  "Rcpp_strict =
     \<lparr>as_List = sexp_as_List,
      rcpp_to_vector_double = sexp_to_vector_double,
      rcpp_to_vector_int = sexp_to_vector_int,
      rcpp_to_vector_bool = sexp_to_vector_bool,
      rcpp_to_int = sexp_to_int,
      rcpp_to_double = sexp_to_double,
      rcpp_to_bool = sexp_to_bool\<rparr>"

text \<open>A bundle around a given \<^verbatim>\<open>args_params\<close> list, with the two other entries that
  \<^verbatim>\<open>load\<close> reads, and a System object as it may stand before \<^verbatim>\<open>load\<close>.\<close>

definition args_with :: "sexp Rcpp_List \<Rightarrow> sexp Rcpp_List" where
  "args_with args_params =
     [(''args_params'', VECSXP args_params),
      (''args_functions'', VECSXP []),
      (''args_progress'', VECSXP [(''pb_burnin'', VECSXP [])])]"

definition System_new :: "real System" where
  "System_new =
     \<lparr>x = [], theta_init = [], theta_min = [], theta_max = [], trans_type = [], d = 0,
      burnin = [], samples = 0, rungs = 0, burnin_phases = 0, bw_update = [],
      cov_update = [], coupling_on = [], GTI_pow = 0, chain = 0, pb_markdown = False,
      silent = False\<rparr>"

text \<open>The spec's scenario A: one dimension, \<open>theta_init = 0\<close> within \<open>[-10, 10]\<close>, the
  identity transform, one rung, one burn-in phase of 1000 iterations, 5000 samples.\<close>

definition params_A :: "sexp Rcpp_List" where
  "params_A =
     [(''x'', REALSXP [1, 2, 3]),
      (''theta_init'', REALSXP [0]),
      (''theta_min'', REALSXP [-10]),
      (''theta_max'', REALSXP [10]),
      (''trans_type'', INTSXP [0]),
      (''burnin'', INTSXP [1000]),
      (''samples'', INTSXP [5000]),
      (''rungs'', INTSXP [1]),
      (''burnin_phases'', INTSXP [1]),
      (''bw_update'', LGLSXP [True]),
      (''cov_update'', LGLSXP [True]),
      (''coupling_on'', LGLSXP [True]),
      (''GTI_pow'', REALSXP [1]),
      (''chain'', INTSXP [1]),
      (''pb_markdown'', LGLSXP [False]),
      (''silent'', LGLSXP [True])]"

definition System_A :: "real System" where
  "System_A =
     \<lparr>x = [1, 2, 3], theta_init = [0], theta_min = [-10], theta_max = [10],
      trans_type = [0], d = 1, burnin = [1000], samples = 5000, rungs = 1,
      burnin_phases = 1, bw_update = [True], cov_update = [True], coupling_on = [True],
      GTI_pow = 1, chain = 1, pb_markdown = False, silent = True\<rparr>"

text \<open>Bundles that break what the spec asks of a configuration: sequences of different
  lengths with a burn-in schedule longer than \<^verbatim>\<open>burnin_phases\<close>; and no rung, a negative
  sample count, a zero tempering power and a start value above its upper bound.\<close>

definition params_lengths :: "sexp Rcpp_List" where
  "params_lengths =
     [(''x'', REALSXP [1, 2, 3]),
      (''theta_init'', REALSXP [0]),
      (''theta_min'', REALSXP [-10, -20]),
      (''theta_max'', REALSXP [10, 20, 30]),
      (''trans_type'', INTSXP [0, 0, 0, 0]),
      (''burnin'', INTSXP [1000, 10]),
      (''samples'', INTSXP [5000]),
      (''rungs'', INTSXP [1]),
      (''burnin_phases'', INTSXP [1]),
      (''bw_update'', LGLSXP [True]),
      (''cov_update'', LGLSXP [True]),
      (''coupling_on'', LGLSXP [True]),
      (''GTI_pow'', REALSXP [1]),
      (''chain'', INTSXP [1]),
      (''pb_markdown'', LGLSXP [False]),
      (''silent'', LGLSXP [True])]"

definition System_lengths :: "real System" where
  "System_lengths =
     \<lparr>x = [1, 2, 3], theta_init = [0], theta_min = [-10, -20], theta_max = [10, 20, 30],
      trans_type = [0, 0, 0, 0], d = 1, burnin = [1000, 10], samples = 5000, rungs = 1,
      burnin_phases = 1, bw_update = [True], cov_update = [True], coupling_on = [True],
      GTI_pow = 1, chain = 1, pb_markdown = False, silent = True\<rparr>"

definition params_values :: "sexp Rcpp_List" where
  "params_values =
     [(''x'', REALSXP [1, 2, 3]),
      (''theta_init'', REALSXP [20]),
      (''theta_min'', REALSXP [-10]),
      (''theta_max'', REALSXP [10]),
      (''trans_type'', INTSXP [0]),
      (''burnin'', INTSXP [1000]),
      (''samples'', INTSXP [-1]),
      (''rungs'', INTSXP [0]),
      (''burnin_phases'', INTSXP [1]),
      (''bw_update'', LGLSXP [True]),
      (''cov_update'', LGLSXP [True]),
      (''coupling_on'', LGLSXP [True]),
      (''GTI_pow'', REALSXP [0]),
      (''chain'', INTSXP [1]),
      (''pb_markdown'', LGLSXP [False]),
      (''silent'', LGLSXP [True])]"

definition System_values :: "real System" where
  "System_values =
     \<lparr>x = [1, 2, 3], theta_init = [20], theta_min = [-10], theta_max = [10],
      trans_type = [0], d = 1, burnin = [1000], samples = -1, rungs = 0,
      burnin_phases = 1, bw_update = [True], cov_update = [True], coupling_on = [True],
      GTI_pow = 0, chain = 1, pb_markdown = False, silent = True\<rparr>"

text \<open>Scenario A without its \<^verbatim>\<open>samples\<close> entry; and a bundle that agrees with
  scenario A on \<^verbatim>\<open>args_params\<close> and differs in order and in the other two entries.\<close>

definition params_no_samples :: "sexp Rcpp_List" where
  "params_no_samples =
     [(''x'', REALSXP [1, 2, 3]),
      (''theta_init'', REALSXP [0]),
      (''theta_min'', REALSXP [-10]),
      (''theta_max'', REALSXP [10]),
      (''trans_type'', INTSXP [0]),
      (''burnin'', INTSXP [1000]),
      (''rungs'', INTSXP [1]),
      (''burnin_phases'', INTSXP [1]),
      (''bw_update'', LGLSXP [True]),
      (''cov_update'', LGLSXP [True]),
      (''coupling_on'', LGLSXP [True]),
      (''GTI_pow'', REALSXP [1]),
      (''chain'', INTSXP [1]),
      (''pb_markdown'', LGLSXP [False]),
      (''silent'', LGLSXP [True])]"

definition args_other :: "sexp Rcpp_List" where
  "args_other =
     [(''args_progress'', VECSXP [(''pb_samples'', NILSXP), (''pb_burnin'', VECSXP [(''max'', INTSXP [1000])])]),
      (''args_functions'', VECSXP [(''loglike'', NILSXP), (''logprior'', NILSXP)]),
      (''args_params'', VECSXP params_A)]"

section \<open>The call in the program state\<close>

text \<open>
  To say what a call of \<^verbatim>\<open>load\<close> leaves alone, the state that the call runs in is made
  explicit: the host list that \<^verbatim>\<open>args\<close> refers to, the System object that the call is
  made on, and everything else the program holds.
\<close>

record ('v, 'r, 'z, 'g) program_state =
  host_args :: "'v Rcpp_List"
  system :: "('r, 'z) System_scheme"
  other_state :: 'g

text \<open>
  The conversions once more, now as operations in a state \<open>'w\<close>: a conversion gets the
  host value and the state, yields a value or throws, and leaves a state. Nothing is
  assumed about the state it leaves: a conversion may write anything, the bundle and the
  object included.
\<close>

record ('v, 'r, 'w) Rcpp' =
  as_List' :: "'v \<Rightarrow> 'w \<Rightarrow> (error + 'v Rcpp_List) \<times> 'w"
  rcpp_to_vector_double' :: "'v \<Rightarrow> 'w \<Rightarrow> (error + 'r list) \<times> 'w"
  rcpp_to_vector_int' :: "'v \<Rightarrow> 'w \<Rightarrow> (error + 32 word list) \<times> 'w"
  rcpp_to_vector_bool' :: "'v \<Rightarrow> 'w \<Rightarrow> (error + bool list) \<times> 'w"
  rcpp_to_int' :: "'v \<Rightarrow> 'w \<Rightarrow> (error + 32 word) \<times> 'w"
  rcpp_to_double' :: "'v \<Rightarrow> 'w \<Rightarrow> (error + 'r) \<times> 'w"
  rcpp_to_bool' :: "'v \<Rightarrow> 'w \<Rightarrow> (error + bool) \<times> 'w"

text \<open>\<^verbatim>\<open>conv(l["name"])\<close> in a state: a failed read throws in the state as it is, a
  conversion runs in it.\<close>

definition arg' ::
  "('v \<Rightarrow> 'w \<Rightarrow> (error + 'a) \<times> 'w) \<Rightarrow> 'v Rcpp_List \<Rightarrow> string \<Rightarrow> 'w \<Rightarrow> (error + 'a) \<times> 'w" where
  "arg' conv l name w = (case List_get l name of Inl e \<Rightarrow> (Inl e, w) | Inr v \<Rightarrow> conv v w)"

text \<open>\<^verbatim>\<open>field = rhs;\<close> in a state: the right-hand side runs first, and the store is made
  in the state that it leaves.\<close>

definition assign' :: "('w \<Rightarrow> (error + 'a) \<times> 'w) \<Rightarrow> ('a \<Rightarrow> 'w \<Rightarrow> 'w) \<Rightarrow> 'w \<Rightarrow> 'w outcome" where
  "assign' rhs store w =
     (case rhs w of (Inl e, w') \<Rightarrow> Throws e w' | (Inr v, w') \<Rightarrow> Returns (store v w'))"

text \<open>A store to a member of the object that the call is made on.\<close>

definition on_system ::
  "(('r, 'z) System_scheme \<Rightarrow> ('r, 'z) System_scheme) \<Rightarrow>
     ('v, 'r, 'z, 'g) program_state \<Rightarrow> ('v, 'r, 'z, 'g) program_state" where
  "on_system f w = w\<lparr>system := f (system w)\<rparr>"

text \<open>Lines 10 to 13 in a state. A local list is the value that was read into it.\<close>

definition split_argument_lists' ::
  "('v, 'r, 'w) Rcpp' \<Rightarrow> 'v Rcpp_List \<Rightarrow> 'w \<Rightarrow> (error + 'v Rcpp_List) \<times> 'w" where
  "split_argument_lists' R args w =
     (case arg' (as_List' R) args ''args_params'' w of
        (Inl e, w1) \<Rightarrow> (Inl e, w1)
      | (Inr args_params, w1) \<Rightarrow>
         (case arg' (as_List' R) args ''args_functions'' w1 of
            (Inl e, w2) \<Rightarrow> (Inl e, w2)
          | (Inr args_functions, w2) \<Rightarrow>
             (case arg' (as_List' R) args ''args_progress'' w2 of
                (Inl e, w3) \<Rightarrow> (Inl e, w3)
              | (Inr args_progress, w3) \<Rightarrow>
                 (case arg' (as_List' R) args_progress ''pb_burnin'' w3 of
                    (Inl e, w4) \<Rightarrow> (Inl e, w4)
                  | (Inr args_progress_burnin, w4) \<Rightarrow> (Inr args_params, w4)))))"

text \<open>Lines 16 to 38 in a state.\<close>

definition load_params' ::
  "('v, 'r, ('v, 'r, 'z, 'g) program_state) Rcpp' \<Rightarrow> 'v Rcpp_List \<Rightarrow>
     (('v, 'r, 'z, 'g) program_state \<Rightarrow> ('v, 'r, 'z, 'g) program_state outcome) list" where
  "load_params' R args_params =
     [assign' (arg' (rcpp_to_vector_double' R) args_params ''x'') (\<lambda>v. on_system (\<lambda>s. s\<lparr>x := v\<rparr>)),
      assign' (arg' (rcpp_to_vector_double' R) args_params ''theta_init'') (\<lambda>v. on_system (\<lambda>s. s\<lparr>theta_init := v\<rparr>)),
      assign' (arg' (rcpp_to_vector_double' R) args_params ''theta_min'') (\<lambda>v. on_system (\<lambda>s. s\<lparr>theta_min := v\<rparr>)),
      assign' (arg' (rcpp_to_vector_double' R) args_params ''theta_max'') (\<lambda>v. on_system (\<lambda>s. s\<lparr>theta_max := v\<rparr>)),
      assign' (arg' (rcpp_to_vector_int' R) args_params ''trans_type'') (\<lambda>v. on_system (\<lambda>s. s\<lparr>trans_type := v\<rparr>)),
      (\<lambda>w. Returns (on_system (\<lambda>s. s\<lparr>d := length (theta_init s)\<rparr>) w)),
      assign' (arg' (rcpp_to_vector_int' R) args_params ''burnin'') (\<lambda>v. on_system (\<lambda>s. s\<lparr>burnin := v\<rparr>)),
      assign' (arg' (rcpp_to_int' R) args_params ''samples'') (\<lambda>v. on_system (\<lambda>s. s\<lparr>samples := v\<rparr>)),
      assign' (arg' (rcpp_to_int' R) args_params ''rungs'') (\<lambda>v. on_system (\<lambda>s. s\<lparr>rungs := v\<rparr>)),
      assign' (arg' (rcpp_to_int' R) args_params ''burnin_phases'') (\<lambda>v. on_system (\<lambda>s. s\<lparr>burnin_phases := v\<rparr>)),
      assign' (arg' (rcpp_to_vector_bool' R) args_params ''bw_update'') (\<lambda>v. on_system (\<lambda>s. s\<lparr>bw_update := v\<rparr>)),
      assign' (arg' (rcpp_to_vector_bool' R) args_params ''cov_update'') (\<lambda>v. on_system (\<lambda>s. s\<lparr>cov_update := v\<rparr>)),
      assign' (arg' (rcpp_to_vector_bool' R) args_params ''coupling_on'') (\<lambda>v. on_system (\<lambda>s. s\<lparr>coupling_on := v\<rparr>)),
      assign' (arg' (rcpp_to_double' R) args_params ''GTI_pow'') (\<lambda>v. on_system (\<lambda>s. s\<lparr>GTI_pow := v\<rparr>)),
      assign' (arg' (rcpp_to_int' R) args_params ''chain'') (\<lambda>v. on_system (\<lambda>s. s\<lparr>chain := v\<rparr>)),
      assign' (arg' (rcpp_to_bool' R) args_params ''pb_markdown'') (\<lambda>v. on_system (\<lambda>s. s\<lparr>pb_markdown := v\<rparr>)),
      assign' (arg' (rcpp_to_bool' R) args_params ''silent'') (\<lambda>v. on_system (\<lambda>s. s\<lparr>silent := v\<rparr>))]"

text \<open>The call \<^verbatim>\<open>load(args)\<close> on the object of the state, with the bundle of the state
  as its argument.\<close>

definition load' ::
  "('v, 'r, ('v, 'r, 'z, 'g) program_state) Rcpp' \<Rightarrow>
     ('v, 'r, 'z, 'g) program_state \<Rightarrow> ('v, 'r, 'z, 'g) program_state outcome" where
  "load' R w =
     (case split_argument_lists' R (host_args w) w of
        (Inl e, w1) \<Rightarrow> Throws e w1
      | (Inr args_params, w1) \<Rightarrow> run (load_params' R args_params) w1)"

text \<open>What \<^verbatim>\<open>load\<close> is said to leave alone: the bundle, the rest of the program state,
  and the members of the object other than the seventeen configuration fields.\<close>

definition frame ::
  "('v, 'r, 'z, 'g) program_state \<Rightarrow> 'v Rcpp_List \<times> 'g \<times> 'z" where
  "frame w = (host_args w, other_state w, System.more (system w))"

text \<open>The conversions leave these alone, whatever else they do.\<close>

definition leaves_frame :: "('v, 'r, ('v, 'r, 'z, 'g) program_state) Rcpp' \<Rightarrow> bool" where
  "leaves_frame R \<longleftrightarrow>
     (\<forall>v w. frame (snd (as_List' R v w)) = frame w) \<and>
     (\<forall>v w. frame (snd (rcpp_to_vector_double' R v w)) = frame w) \<and>
     (\<forall>v w. frame (snd (rcpp_to_vector_int' R v w)) = frame w) \<and>
     (\<forall>v w. frame (snd (rcpp_to_vector_bool' R v w)) = frame w) \<and>
     (\<forall>v w. frame (snd (rcpp_to_int' R v w)) = frame w) \<and>
     (\<forall>v w. frame (snd (rcpp_to_double' R v w)) = frame w) \<and>
     (\<forall>v w. frame (snd (rcpp_to_bool' R v w)) = frame w)"

text \<open>Conversions that only read: the conversions \<open>R\<close> of the first model, run in a
  state that they hand back as they got it.\<close>

definition reading :: "('v, 'r) Rcpp \<Rightarrow> ('v, 'r, 'w) Rcpp'" where
  "reading R =
     \<lparr>as_List' = (\<lambda>v w. (as_List R v, w)),
      rcpp_to_vector_double' = (\<lambda>v w. (rcpp_to_vector_double R v, w)),
      rcpp_to_vector_int' = (\<lambda>v w. (rcpp_to_vector_int R v, w)),
      rcpp_to_vector_bool' = (\<lambda>v w. (rcpp_to_vector_bool R v, w)),
      rcpp_to_int' = (\<lambda>v w. (rcpp_to_int R v, w)),
      rcpp_to_double' = (\<lambda>v w. (rcpp_to_double R v, w)),
      rcpp_to_bool' = (\<lambda>v w. (rcpp_to_bool R v, w))\<rparr>"

text \<open>A statement on the object, run on the object of a state.\<close>

definition in_system ::
  "(('r, 'z) System_scheme \<Rightarrow> ('r, 'z) System_scheme outcome) \<Rightarrow>
     ('v, 'r, 'z, 'g) program_state \<Rightarrow> ('v, 'r, 'z, 'g) program_state outcome" where
  "in_system st w =
     (case st (system w) of
        Returns s \<Rightarrow> Returns (w\<lparr>system := s\<rparr>)
      | Throws e s \<Rightarrow> Throws e (w\<lparr>system := s\<rparr>))"

text \<open>Two concrete states: scenario A, and scenario A without its \<^verbatim>\<open>samples\<close> entry.
  The object has one more member, which holds 7, and the rest of the program state is the
  number 42.\<close>

definition state_A :: "(sexp, real, nat, nat) program_state" where
  "state_A =
     \<lparr>host_args = args_with params_A, system = System.extend System_new 7, other_state = 42\<rparr>"


text \<open>A conversion that writes, to try the model on: it is not one of the program's.
  \<^verbatim>\<open>rcpp_to_int\<close> counts its calls in the rest of the program state.\<close>

definition Rcpp_counting :: "(sexp, real, (sexp, real, nat, nat) program_state) Rcpp'" where
  "Rcpp_counting =
     (reading Rcpp_strict)
       \<lparr>rcpp_to_int' := (\<lambda>v w. (sexp_to_int v, w\<lparr>other_state := Suc (other_state w)\<rparr>))\<rparr>"

section \<open>The tempering ladder and the swap rule\<close>

text \<open>
  Modelled from the spec: the ladder construction (RungLadder) is not among the sources.
  The spec gives rung \<open>k\<close> of \<open>rungs\<close> the power \<open>(k / (rungs - 1))^GTI_pow\<close>, and
  a single rung the power 1. Powers are real numbers, as the spec has them, and the power
  of a real exponent is \<open>powr\<close>.
\<close>

definition beta_power :: "nat \<Rightarrow> real \<Rightarrow> nat \<Rightarrow> real" where
  "beta_power n p k = (if n = 1 then 1 else (real k / real (n - 1)) powr p)"

text \<open>Modelled from the spec: the powers of the rungs \<open>k = 0, \<dots>, n - 1\<close> of the
  ladder (RungLadder, not among the sources), in the order of the rungs.\<close>

definition ladder_powers :: "nat \<Rightarrow> real \<Rightarrow> real list" where
  "ladder_powers n p = map (beta_power n p) [0..<n]"

text \<open>Modelled from the spec: the ladder (RungLadder, not among the sources) that is
  constructed from a configuration, from its fields \<open>rungs\<close> and \<open>GTI_pow\<close>.\<close>

definition RungLadder :: "(real, 'z) System_scheme \<Rightarrow> real list" where
  "RungLadder cfg = ladder_powers (nat (sint (rungs cfg))) (GTI_pow cfg)"

text \<open>
  Modelled from the spec: the coupling engine (CouplingEngine.attempt_swap) is not among
  the sources. Of a chain the rule reads the power and the cached log-likelihood. For the
  adjacent pair \<open>(k, k + 1)\<close> with both \<^verbatim>\<open>coupling_on\<close> flags set, the spec gives the
  swap the acceptance probability
  \<^verbatim>\<open>min(1, exp((beta_{k+1} - beta_k) * (loglike_k - loglike_{k+1})))\<close>; a pair with a
  flag unset, or past the end of the ladder, gets no attempt.
\<close>

record Chain =
  beta :: real
  loglike :: real

text \<open>Modelled from the spec: the acceptance probability of a swap between the chains
  of rungs \<open>k\<close> and \<open>k + 1\<close> (CouplingEngine, not among the sources).\<close>

definition swap_acceptance :: "Chain \<Rightarrow> Chain \<Rightarrow> real" where
  "swap_acceptance c_k c_k1 =
     min 1 (exp ((beta c_k1 - beta c_k) * (loglike c_k - loglike c_k1)))"

text \<open>Modelled from the spec: the probability with which
  \<^verbatim>\<open>CouplingEngine.attempt_swap\<close> (not among the sources) accepts the swap of the pair
  \<open>(k, k + 1)\<close>; \<open>None\<close> when the pair is not attempted.\<close>

definition attempt_swap_probability :: "bool list \<Rightarrow> Chain list \<Rightarrow> nat \<Rightarrow> real option" where
  "attempt_swap_probability coupling ladder k =
     (if k + 1 < length ladder \<and> k + 1 < length coupling \<and> coupling ! k \<and> coupling ! (k + 1)
      then Some (swap_acceptance (ladder ! k) (ladder ! (k + 1)))
      else None)"

text \<open>The spec's scenario B: five rungs, \<open>GTI_pow = 2\<close>, coupling on everywhere.\<close>

definition System_B :: "real System" where
  "System_B = System_A\<lparr>rungs := 5, GTI_pow := 2, coupling_on := [True, True, True, True, True]\<rparr>"

section \<open>Basic facts about statements and reads\<close>

lemma assign_Returns_iff:
  "assign rhs store s = Returns s' \<longleftrightarrow> (\<exists>v. rhs = Inr v \<and> s' = store v s)"
  by (cases rhs) (auto simp: assign_def)

lemma run_Cons_Returns_iff:
  "run (st # sts) s = Returns s' \<longleftrightarrow> (\<exists>s1. st s = Returns s1 \<and> run sts s1 = Returns s')"
  by (cases "st s") auto

lemma outcome_cases: "(\<exists>s'. r = Returns s') \<or> (\<exists>e s'. r = Throws e s')"
  by (cases r) auto

lemma arg_missing: "map_of l name = None \<Longrightarrow> arg conv l name = Inl (index_out_of_bounds name)"
  by (simp add: arg_def List_get_def)

lemma arg_Inr_present: "arg conv l name = Inr v \<Longrightarrow> \<exists>y. map_of l name = Some y"
  by (simp add: arg_def List_get_def split: option.splits)

lemma split_argument_lists_Inr:
  "split_argument_lists R args = Inr args_params \<Longrightarrow>
     arg (as_List R) args ''args_params'' = Inr args_params"
  by (simp add: split_argument_lists_def split: sum.splits)

text \<open>When \<^verbatim>\<open>load\<close> returns, and what the object then is: the four lists were read,
  every entry was read and converted, and nothing but the seventeen fields changed.\<close>

lemma load_Returns_iff:
  "load R args this = Returns s' \<longleftrightarrow>
     (\<exists>args_params. split_argument_lists R args = Inr args_params \<and>
        params_read R args_params s' \<and> d s' = length (theta_init s') \<and>
        System.more s' = System.more this)"
  (is "?L \<longleftrightarrow> ?R")
proof
  assume ?L
  then show ?R
    by (auto simp: load_def load_params_def params_read_def run_Cons_Returns_iff
        assign_Returns_iff simp del: run.simps(2) split: sum.splits)
next
  assume ?R
  then obtain args_params where sp: "split_argument_lists R args = Inr args_params"
    and rd: "params_read R args_params s'" and dl: "d s' = length (theta_init s')"
    and mo: "System.more s' = System.more this"
    by blast
  have "run (load_params R args_params) this =
      Returns (this\<lparr>x := x s', theta_init := theta_init s', theta_min := theta_min s',
        theta_max := theta_max s', trans_type := trans_type s', d := length (theta_init s'),
        burnin := burnin s', samples := samples s', rungs := rungs s',
        burnin_phases := burnin_phases s', bw_update := bw_update s',
        cov_update := cov_update s', coupling_on := coupling_on s', GTI_pow := GTI_pow s',
        chain := chain s', pb_markdown := pb_markdown s', silent := silent s'\<rparr>)"
    using rd by (simp add: load_params_def params_read_def assign_def)
  also have "\<dots> = Returns s'"
    using dl mo by simp
  finally show ?L
    using sp by (simp add: load_def)
qed

lemma load_assigned:
  assumes "split_argument_lists R args = Inr args_params"
    and "params_read R args_params cfg"
  shows "load R args this = Returns (assigned cfg this)"
proof -
  have "params_read R args_params (assigned cfg this)"
    using assms(2) by (simp add: params_read_def assigned_def)
  moreover have "d (assigned cfg this) = length (theta_init (assigned cfg this))"
    by (simp add: assigned_def)
  moreover have "System.more (assigned cfg this) = System.more this"
    by (simp add: assigned_def)
  ultimately show ?thesis
    using assms(1) load_Returns_iff by blast
qed

lemma params_read_present:
  assumes "params_read R args_params cfg" and "name \<in> set config_fields"
  shows "\<exists>y. map_of args_params name = Some y"
proof -
  from assms(1) have "list_all (\<lambda>n. \<exists>y. map_of args_params n = Some y) config_fields"
    unfolding params_read_def config_fields_def
    apply (elim conjE)
    apply (drule arg_Inr_present)+
    apply (simp only: list.pred_inject simp_thms)
    done
  then show ?thesis
    using assms(2) by (simp add: list_all_iff)
qed

section \<open>Concrete runs\<close>

lemmas concrete_defs =
  load_def split_argument_lists_def arg_def List_get_def args_with_def Rcpp_strict_def
  load_params_def assign_def System_new_def

lemma load_A: "load Rcpp_strict (args_with params_A) System_new = Returns System_A"
  by (simp add: concrete_defs params_A_def System_A_def)

lemma load_lengths:
  "load Rcpp_strict (args_with params_lengths) System_new = Returns System_lengths"
  by (simp add: concrete_defs params_lengths_def System_lengths_def)

lemma load_values:
  "load Rcpp_strict (args_with params_values) System_new = Returns System_values"
  by (simp add: concrete_defs params_values_def System_values_def)

lemma split_args_with: "split_argument_lists Rcpp_strict (args_with l) = Inr l"
  by (simp add: split_argument_lists_def arg_def List_get_def args_with_def Rcpp_strict_def)

lemma read_lengths: "params_read Rcpp_strict params_lengths System_lengths"
  by (simp add: params_read_def arg_def List_get_def Rcpp_strict_def params_lengths_def
      System_lengths_def)

lemma read_values: "params_read Rcpp_strict params_values System_values"
  by (simp add: params_read_def arg_def List_get_def Rcpp_strict_def params_values_def
      System_values_def)

section \<open>What load copies\<close>

text \<open>
  Claim C3. Whenever \<^verbatim>\<open>load\<close> returns, every configuration field of the object is the
  entry of that name in the \<^verbatim>\<open>args_params\<close> list of the arguments, converted by the
  conversion of the field's declared type, and \<open>d\<close> is the length of \<open>theta_init\<close>.
\<close>

theorem load_copies_args_params:
  assumes "load R args this = Returns s'"
  shows "\<exists>args_params. arg (as_List R) args ''args_params'' = Inr args_params \<and>
    arg (rcpp_to_vector_double R) args_params ''x'' = Inr (x s') \<and>
    arg (rcpp_to_vector_double R) args_params ''theta_init'' = Inr (theta_init s') \<and>
    arg (rcpp_to_vector_double R) args_params ''theta_min'' = Inr (theta_min s') \<and>
    arg (rcpp_to_vector_double R) args_params ''theta_max'' = Inr (theta_max s') \<and>
    arg (rcpp_to_vector_int R) args_params ''trans_type'' = Inr (trans_type s') \<and>
    arg (rcpp_to_vector_int R) args_params ''burnin'' = Inr (burnin s') \<and>
    arg (rcpp_to_int R) args_params ''samples'' = Inr (samples s') \<and>
    arg (rcpp_to_int R) args_params ''rungs'' = Inr (rungs s') \<and>
    arg (rcpp_to_int R) args_params ''burnin_phases'' = Inr (burnin_phases s') \<and>
    arg (rcpp_to_vector_bool R) args_params ''bw_update'' = Inr (bw_update s') \<and>
    arg (rcpp_to_vector_bool R) args_params ''cov_update'' = Inr (cov_update s') \<and>
    arg (rcpp_to_vector_bool R) args_params ''coupling_on'' = Inr (coupling_on s') \<and>
    arg (rcpp_to_double R) args_params ''GTI_pow'' = Inr (GTI_pow s') \<and>
    arg (rcpp_to_int R) args_params ''chain'' = Inr (chain s') \<and>
    arg (rcpp_to_bool R) args_params ''pb_markdown'' = Inr (pb_markdown s') \<and>
    arg (rcpp_to_bool R) args_params ''silent'' = Inr (silent s') \<and>
    d s' = length (theta_init s')"
proof -
  from assms obtain args_params where sp: "split_argument_lists R args = Inr args_params"
    and rd: "params_read R args_params s'" and dl: "d s' = length (theta_init s')"
    using load_Returns_iff by blast
  from sp have "arg (as_List R) args ''args_params'' = Inr args_params"
    by (rule split_argument_lists_Inr)
  with rd dl show ?thesis
    unfolding params_read_def by blast
qed

theorem load_copies_args_params_witness:
  "load Rcpp_strict (args_with params_A) System_new = Returns System_A \<and>
   arg sexp_to_vector_double params_A ''theta_init'' = Inr (theta_init System_A) \<and>
   arg sexp_to_int params_A ''samples'' = Inr (samples System_A) \<and>
   d System_A = length (theta_init System_A)"
  using load_copies_args_params [OF load_A] load_A
  by (simp add: Rcpp_strict_def arg_def List_get_def args_with_def)

section \<open>What load does not check\<close>

text \<open>
  Claim C1 says that a bundle whose \<open>theta_init\<close>, \<open>theta_min\<close>, \<open>theta_max\<close> and
  \<open>trans_type\<close> differ in length, or whose \<open>burnin\<close> is not \<open>burnin_phases\<close> long,
  makes \<^verbatim>\<open>load\<close> fail. The function has no such check. On the bundle below the four
  sequences have lengths 1, 2, 3 and 4 and \<open>burnin\<close> has two phases where
  \<open>burnin_phases\<close> is 1, and \<^verbatim>\<open>load\<close> returns the record that holds them.
\<close>

theorem load_accepts_length_mismatch:
  "map_of params_lengths ''theta_init'' = Some (REALSXP [0]) \<and>
   map_of params_lengths ''theta_min'' = Some (REALSXP [-10, -20]) \<and>
   map_of params_lengths ''theta_max'' = Some (REALSXP [10, 20, 30]) \<and>
   map_of params_lengths ''trans_type'' = Some (INTSXP [0, 0, 0, 0]) \<and>
   map_of params_lengths ''burnin'' = Some (INTSXP [1000, 10]) \<and>
   map_of params_lengths ''burnin_phases'' = Some (INTSXP [1]) \<and>
   load Rcpp_strict (args_with params_lengths) System_new = Returns System_lengths"
  using load_lengths by (simp add: params_lengths_def)

text \<open>
  Claim C1, amended. \<^verbatim>\<open>load\<close> checks no length. For every bundle whose four lists are
  read and whose sixteen entries are present and convert, and in which the sequences
  differ in length or \<open>burnin\<close> is not \<open>burnin_phases\<close> long, \<^verbatim>\<open>load\<close> returns; the
  record holds the sequences as they were given, \<open>d\<close> is the length of \<open>theta_init\<close>,
  and the mismatch is still there.
\<close>

theorem load_ignores_lengths:
  assumes "split_argument_lists R args = Inr args_params"
    and "params_read R args_params cfg"
    and "\<not> (length (theta_init cfg) = length (theta_min cfg) \<and>
            length (theta_min cfg) = length (theta_max cfg) \<and>
            length (theta_max cfg) = length (trans_type cfg)) \<or>
         int (length (burnin cfg)) \<noteq> sint (burnin_phases cfg)"
  shows "\<exists>s'. load R args this = Returns s' \<and>
           theta_init s' = theta_init cfg \<and> theta_min s' = theta_min cfg \<and>
           theta_max s' = theta_max cfg \<and> trans_type s' = trans_type cfg \<and>
           burnin s' = burnin cfg \<and> burnin_phases s' = burnin_phases cfg \<and>
           d s' = length (theta_init cfg) \<and>
           (\<not> (length (theta_init s') = length (theta_min s') \<and>
               length (theta_min s') = length (theta_max s') \<and>
               length (theta_max s') = length (trans_type s')) \<or>
            int (length (burnin s')) \<noteq> sint (burnin_phases s'))"
proof -
  have "load R args this = Returns (assigned cfg this)"
    using assms(1,2) by (rule load_assigned)
  moreover have "theta_init (assigned cfg this) = theta_init cfg"
    "theta_min (assigned cfg this) = theta_min cfg"
    "theta_max (assigned cfg this) = theta_max cfg"
    "trans_type (assigned cfg this) = trans_type cfg"
    "burnin (assigned cfg this) = burnin cfg"
    "burnin_phases (assigned cfg this) = burnin_phases cfg"
    "d (assigned cfg this) = length (theta_init cfg)"
    by (simp_all add: assigned_def)
  ultimately show ?thesis
    using assms(3) by (intro exI [of _ "assigned cfg this"]) simp
qed

theorem load_ignores_lengths_witness:
  "\<exists>s'. load Rcpp_strict (args_with params_lengths) System_new = Returns s' \<and>
     theta_init s' = [0] \<and> theta_min s' = [-10, -20] \<and> theta_max s' = [10, 20, 30] \<and>
     trans_type s' = [0, 0, 0, 0] \<and> burnin s' = [1000, 10] \<and> burnin_phases s' = 1 \<and>
     d s' = 1"
proof -
  have "\<not> (length (theta_init System_lengths) = length (theta_min System_lengths) \<and>
            length (theta_min System_lengths) = length (theta_max System_lengths) \<and>
            length (theta_max System_lengths) = length (trans_type System_lengths)) \<or>
         int (length (burnin System_lengths)) \<noteq> sint (burnin_phases System_lengths)"
    by (simp add: System_lengths_def)
  from load_ignores_lengths [OF split_args_with read_lengths this, of System_new]
  obtain s' where "load Rcpp_strict (args_with params_lengths) System_new = Returns s'"
    and "theta_init s' = theta_init System_lengths" and "theta_min s' = theta_min System_lengths"
    and "theta_max s' = theta_max System_lengths" and "trans_type s' = trans_type System_lengths"
    and "burnin s' = burnin System_lengths" and "burnin_phases s' = burnin_phases System_lengths"
    and "d s' = length (theta_init System_lengths)"
    by blast
  then show ?thesis
    by (intro exI [of _ s']) (simp add: System_lengths_def)
qed

text \<open>
  Claim C2 says that \<open>rungs < 1\<close>, \<open>samples < 0\<close>, \<open>GTI_pow \<le> 0\<close> or a component of
  \<open>theta_init\<close> outside its bounds makes \<^verbatim>\<open>load\<close> fail. The function compares no value
  with anything. The bundle below has \<open>rungs = 0\<close>, \<open>samples = -1\<close>, \<open>GTI_pow = 0\<close> and
  \<open>theta_init = 20\<close> with bounds \<open>[-10, 10]\<close>, and \<^verbatim>\<open>load\<close> returns the record that holds
  them.
\<close>

theorem load_accepts_invalid_values:
  "map_of params_values ''rungs'' = Some (INTSXP [0]) \<and>
   map_of params_values ''samples'' = Some (INTSXP [-1]) \<and>
   map_of params_values ''GTI_pow'' = Some (REALSXP [0]) \<and>
   map_of params_values ''theta_init'' = Some (REALSXP [20]) \<and>
   map_of params_values ''theta_min'' = Some (REALSXP [-10]) \<and>
   map_of params_values ''theta_max'' = Some (REALSXP [10]) \<and>
   sint (0 :: 32 word) < 1 \<and> sint (-1 :: 32 word) < 0 \<and> (0 :: real) \<le> 0 \<and> (10 :: real) < 20 \<and>
   load Rcpp_strict (args_with params_values) System_new = Returns System_values"
  using load_values by (simp add: params_values_def)

text \<open>
  Claim C2, amended. \<^verbatim>\<open>load\<close> checks no value. For every bundle whose four lists are
  read and whose sixteen entries are present and convert, and in which \<open>rungs < 1\<close>,
  \<open>samples < 0\<close>, \<open>GTI_pow \<le> 0\<close> or some component of \<open>theta_init\<close> lies below its
  \<open>theta_min\<close> or above its \<open>theta_max\<close>, \<^verbatim>\<open>load\<close> returns; the record holds those
  values as they were given, and the violation is still there.
\<close>

theorem load_ignores_values:
  fixes cfg :: "('r :: {zero, linorder}, 'y) System_scheme"
  assumes "split_argument_lists R args = Inr args_params"
    and "params_read R args_params cfg"
    and "sint (rungs cfg) < 1 \<or> sint (samples cfg) < 0 \<or> GTI_pow cfg \<le> 0 \<or>
         list_ex (\<lambda>(t, lo, hi). t < lo \<or> hi < t)
           (zip (theta_init cfg) (zip (theta_min cfg) (theta_max cfg)))"
  shows "\<exists>s'. load R args this = Returns s' \<and>
           rungs s' = rungs cfg \<and> samples s' = samples cfg \<and> GTI_pow s' = GTI_pow cfg \<and>
           theta_init s' = theta_init cfg \<and> theta_min s' = theta_min cfg \<and>
           theta_max s' = theta_max cfg \<and>
           (sint (rungs s') < 1 \<or> sint (samples s') < 0 \<or> GTI_pow s' \<le> 0 \<or>
            list_ex (\<lambda>(t, lo, hi). t < lo \<or> hi < t)
              (zip (theta_init s') (zip (theta_min s') (theta_max s'))))"
proof -
  have "load R args this = Returns (assigned cfg this)"
    using assms(1,2) by (rule load_assigned)
  moreover have "rungs (assigned cfg this) = rungs cfg"
    "samples (assigned cfg this) = samples cfg"
    "GTI_pow (assigned cfg this) = GTI_pow cfg"
    "theta_init (assigned cfg this) = theta_init cfg"
    "theta_min (assigned cfg this) = theta_min cfg"
    "theta_max (assigned cfg this) = theta_max cfg"
    by (simp_all add: assigned_def)
  ultimately show ?thesis
    using assms(3) by (intro exI [of _ "assigned cfg this"]) simp
qed

theorem load_ignores_values_witness:
  "\<exists>s'. load Rcpp_strict (args_with params_values) System_new = Returns s' \<and>
     rungs s' = 0 \<and> samples s' = -1 \<and> GTI_pow s' = 0 \<and>
     theta_init s' = [20] \<and> theta_min s' = [-10] \<and> theta_max s' = [10]"
proof -
  have "sint (rungs System_values) < 1 \<or> sint (samples System_values) < 0 \<or>
         GTI_pow System_values \<le> 0 \<or>
         list_ex (\<lambda>(t, lo, hi). t < lo \<or> hi < t)
           (zip (theta_init System_values) (zip (theta_min System_values) (theta_max System_values)))"
    by (simp add: System_values_def)
  from load_ignores_values [OF split_args_with read_values this, of System_new]
  obtain s' where "load Rcpp_strict (args_with params_values) System_new = Returns s'"
    and "rungs s' = rungs System_values" and "samples s' = samples System_values"
    and "GTI_pow s' = GTI_pow System_values" and "theta_init s' = theta_init System_values"
    and "theta_min s' = theta_min System_values" and "theta_max s' = theta_max System_values"
    by blast
  then show ?thesis
    by (intro exI [of _ s']) (simp add: System_values_def)
qed

section \<open>Missing entries\<close>

text \<open>
  Claim C4. If one of the sixteen configuration entries is missing from the
  \<^verbatim>\<open>args_params\<close> list of the bundle, \<^verbatim>\<open>load\<close> throws: it never returns with a value of
  its own choosing in the field.
\<close>

theorem load_missing_field_throws:
  assumes "name \<in> set config_fields"
    and "\<forall>args_params. arg (as_List R) args ''args_params'' = Inr args_params \<longrightarrow>
           map_of args_params name = None"
  shows "\<exists>e s'. load R args this = Throws e s'"
proof -
  have "load R args this \<noteq> Returns s'" for s'
  proof
    assume "load R args this = Returns s'"
    then obtain args_params where sp: "split_argument_lists R args = Inr args_params"
      and rd: "params_read R args_params s'"
      using load_Returns_iff by blast
    from sp have "arg (as_List R) args ''args_params'' = Inr args_params"
      by (rule split_argument_lists_Inr)
    with assms(2) have "map_of args_params name = None"
      by blast
    with params_read_present [OF rd assms(1)] show False
      by simp
  qed
  then show ?thesis
    using outcome_cases [of "load R args this"] by blast
qed

theorem load_missing_field_throws_witness:
  "''samples'' \<in> set config_fields \<and> map_of params_no_samples ''samples'' = None \<and>
   (\<exists>e s'. load Rcpp_strict (args_with params_no_samples) System_new = Throws e s')"
  using load_missing_field_throws
    [of "''samples''" Rcpp_strict "args_with params_no_samples" System_new]
  by (simp add: config_fields_def params_no_samples_def Rcpp_strict_def arg_def List_get_def
      args_with_def)

text \<open>
  Claim C9. \<^verbatim>\<open>load\<close> throws, leaving the object as it was, when the bundle has no
  \<^verbatim>\<open>args_functions\<close> entry, no \<^verbatim>\<open>args_progress\<close> entry, or an \<^verbatim>\<open>args_progress\<close> list
  without \<^verbatim>\<open>pb_burnin\<close>. Yet nothing read from them is kept: two bundles that agree on
  \<^verbatim>\<open>args_params\<close>, and in both of which these entries are there and are read as the lists
  the source declares them to be, give the same outcome from the same object.
\<close>

theorem load_requires_functions_and_progress:
  "(map_of args ''args_functions'' = None \<or> map_of args ''args_progress'' = None \<or>
    (\<exists>args_progress. arg (as_List R) args ''args_progress'' = Inr args_progress \<and>
       map_of args_progress ''pb_burnin'' = None)
    \<longrightarrow> (\<exists>e. load R args this = Throws e this)) \<and>
   (map_of args ''args_params'' = map_of args' ''args_params'' \<and>
    entries_present R args \<and> entries_present R args'
    \<longrightarrow> load R args this = load R args' this)"
proof (intro conjI impI)
  assume "map_of args ''args_functions'' = None \<or> map_of args ''args_progress'' = None \<or>
    (\<exists>args_progress. arg (as_List R) args ''args_progress'' = Inr args_progress \<and>
       map_of args_progress ''pb_burnin'' = None)"
  then have "\<exists>e. split_argument_lists R args = Inl e"
    by (auto simp: split_argument_lists_def arg_missing split: sum.splits)
  then show "\<exists>e. load R args this = Throws e this"
    by (auto simp: load_def)
next
  assume h: "map_of args ''args_params'' = map_of args' ''args_params'' \<and>
    entries_present R args \<and> entries_present R args'"
  have "split_argument_lists R a = arg (as_List R) a ''args_params''"
    if "entries_present R a" for a
    using that by (auto simp: split_argument_lists_def entries_present_def split: sum.splits)
  moreover have "arg (as_List R) args ''args_params'' = arg (as_List R) args' ''args_params''"
    using h by (simp add: arg_def List_get_def)
  ultimately have "split_argument_lists R args = split_argument_lists R args'"
    using h by simp
  then show "load R args this = load R args' this"
    by (simp add: load_def)
qed

theorem load_requires_functions_and_progress_witness:
  "(\<exists>e. load Rcpp_strict [(''args_params'', VECSXP params_A)] System_new = Throws e System_new) \<and>
   load Rcpp_strict (args_with params_A) System_new = load Rcpp_strict args_other System_new"
proof -
  have "map_of [(''args_params'', VECSXP params_A)] ''args_functions'' = None"
    by simp
  then have "\<exists>e. load Rcpp_strict [(''args_params'', VECSXP params_A)] System_new = Throws e System_new"
    using load_requires_functions_and_progress
      [of "[(''args_params'', VECSXP params_A)]" Rcpp_strict System_new]
    by blast
  moreover have "map_of (args_with params_A) ''args_params'' = map_of args_other ''args_params''"
    by (simp add: args_with_def args_other_def)
  moreover have "entries_present Rcpp_strict (args_with params_A)"
    by (simp add: entries_present_def arg_def List_get_def args_with_def Rcpp_strict_def)
  moreover have "entries_present Rcpp_strict args_other"
    by (simp add: entries_present_def arg_def List_get_def args_other_def Rcpp_strict_def)
  ultimately show ?thesis
    using load_requires_functions_and_progress
      [of "args_with params_A" Rcpp_strict System_new args_other]
    by blast
qed

section \<open>The frame of load\<close>

text \<open>The call in a state agrees with the call on the object: with conversions that only
  read, \<open>load'\<close> is \<open>load\<close> run on the object of the state, for the bundle of the state.\<close>

lemma arg'_reading: "arg' (\<lambda>v w. (conv v, w)) l name = (\<lambda>w. (arg conv l name, w))"
  by (rule ext) (simp add: arg'_def arg_def split: sum.splits)

lemma assign'_reading:
  "assign' (\<lambda>w. (r, w)) (\<lambda>v. on_system (store v)) = in_system (assign r store)"
  by (rule ext, cases r) (simp_all add: assign'_def assign_def in_system_def on_system_def)

lemma run_in_system: "run (map in_system sts) w = in_system (run sts) w"
proof (induction sts arbitrary: w)
  case Nil
  then show ?case by (simp add: in_system_def)
next
  case (Cons st sts)
  show ?case
  proof (cases "st (system w)")
    case (Returns s)
    then have "run (map in_system (st # sts)) w = run (map in_system sts) (w\<lparr>system := s\<rparr>)"
      by (simp add: in_system_def)
    also have "\<dots> = in_system (run sts) (w\<lparr>system := s\<rparr>)"
      by (rule Cons.IH)
    also have "\<dots> = in_system (run (st # sts)) w"
      using Returns by (simp add: in_system_def split: outcome.splits)
    finally show ?thesis .
  next
    case (Throws e s)
    then show ?thesis by (simp add: in_system_def)
  qed
qed

lemma split_argument_lists'_reading:
  "split_argument_lists' (reading R) args w = (split_argument_lists R args, w)"
  by (simp add: split_argument_lists'_def split_argument_lists_def reading_def arg'_reading
      split: sum.splits)

lemma set_d_reading:
  "(\<lambda>w. Returns (on_system f w)) = in_system (\<lambda>s. Returns (f s))"
  by (rule ext) (simp add: in_system_def on_system_def)

lemma load_params'_reading:
  "load_params' (reading R) args_params = map in_system (load_params R args_params)"
  unfolding load_params'_def load_params_def reading_def
  by (simp add: arg'_reading assign'_reading set_d_reading)

lemma load'_reading: "load' (reading R) w = in_system (load R (host_args w)) w"
proof (cases "split_argument_lists R (host_args w)")
  case (Inl e)
  then show ?thesis
    by (simp add: load'_def load_def split_argument_lists'_reading in_system_def)
next
  case (Inr args_params)
  then show ?thesis
    by (simp add: load'_def load_def split_argument_lists'_reading load_params'_reading
        run_in_system in_system_def)
qed







text \<open>The model does not settle the matter by its shape: a conversion can write, and then
  the call changes the rest of the program state. With the counting \<^verbatim>\<open>rcpp_to_int\<close>, which
  lines 27, 28, 29 and 34 call, the count goes from 42 to 46.\<close>

lemma not_leaves_frame_counting: "\<not> leaves_frame Rcpp_counting"
proof
  assume "leaves_frame Rcpp_counting"
  then have "frame (snd (rcpp_to_int' Rcpp_counting NILSXP state_A)) = frame state_A"
    unfolding leaves_frame_def by blast
  then show False
    by (simp add: Rcpp_counting_def frame_def)
qed

lemma load'_counting: "other_state (final_state (load' Rcpp_counting state_A)) = 46"
  by (simp add: load'_def split_argument_lists'_def load_params'_def assign'_def arg'_def
      List_get_def Rcpp_counting_def reading_def on_system_def Rcpp_strict_def state_A_def
      args_with_def params_A_def)



section \<open>Properties of the ladder and of the swap rule\<close>

lemma beta_power_mono:
  assumes "1 < n" and "0 < p" and "j < k"
  shows "beta_power n p j < beta_power n p k"
proof -
  have pos: "0 < real (n - 1)"
    using assms(1) by simp
  have "real j / real (n - 1) < real k / real (n - 1)"
    using assms(3) pos by (simp add: divide_strict_right_mono)
  moreover have "0 \<le> real j / real (n - 1)"
    by simp
  ultimately have "(real j / real (n - 1)) powr p < (real k / real (n - 1)) powr p"
    using assms(2) by (rule_tac powr_less_mono2)
  then show ?thesis
    using assms(1) by (simp add: beta_power_def)
qed

lemma ladder_powers_props:
  assumes "1 < n" and "0 < p"
  shows "length (ladder_powers n p) = n"
    and "\<forall>k. k < n \<longrightarrow> ladder_powers n p ! k = (real k / real (n - 1)) powr p"
    and "\<forall>j k. j < k \<and> k < n \<longrightarrow> ladder_powers n p ! j < ladder_powers n p ! k"
    and "ladder_powers n p ! 0 = 0"
    and "ladder_powers n p ! (n - 1) = 1"
proof -
  show "length (ladder_powers n p) = n"
    by (simp add: ladder_powers_def)
  show "\<forall>k. k < n \<longrightarrow> ladder_powers n p ! k = (real k / real (n - 1)) powr p"
    using assms(1) by (simp add: ladder_powers_def beta_power_def)
  show "\<forall>j k. j < k \<and> k < n \<longrightarrow> ladder_powers n p ! j < ladder_powers n p ! k"
    using assms by (simp add: ladder_powers_def beta_power_mono)
  show "ladder_powers n p ! 0 = 0"
    using assms(1) by (simp add: ladder_powers_def beta_power_def)
  have "ladder_powers n p ! (n - 1) = beta_power n p (n - 1)"
    using assms(1) by (simp add: ladder_powers_def)
  also have "\<dots> = 1"
    using assms(1) by (simp add: beta_power_def)
  finally show "ladder_powers n p ! (n - 1) = 1" .
qed

text \<open>
  Claim C6. For a configuration with more than one rung and a positive \<open>GTI_pow\<close>, the
  ladder has one power for each rung, rung \<open>k\<close> has the power
  \<open>(k / (rungs - 1)) powr GTI_pow\<close>, the powers increase strictly with the rung, the
  first is 0 and the last is 1. For a single rung the ladder is the one power 1.
\<close>

theorem RungLadder_powers:
  "(1 < sint (rungs cfg) \<and> 0 < GTI_pow cfg \<longrightarrow>
      length (RungLadder cfg) = nat (sint (rungs cfg)) \<and>
      (\<forall>k. k < nat (sint (rungs cfg)) \<longrightarrow>
         RungLadder cfg ! k = (real k / real (nat (sint (rungs cfg)) - 1)) powr GTI_pow cfg) \<and>
      (\<forall>j k. j < k \<and> k < nat (sint (rungs cfg)) \<longrightarrow> RungLadder cfg ! j < RungLadder cfg ! k) \<and>
      RungLadder cfg ! 0 = 0 \<and>
      RungLadder cfg ! (nat (sint (rungs cfg)) - 1) = 1) \<and>
   (sint (rungs cfg) = 1 \<longrightarrow> RungLadder cfg = [1])"
proof (intro conjI impI)
  assume "sint (rungs cfg) = 1"
  then show "RungLadder cfg = [1]"
    by (simp add: RungLadder_def ladder_powers_def beta_power_def)
next
  assume h: "1 < sint (rungs cfg) \<and> 0 < GTI_pow cfg"
  then have n: "1 < nat (sint (rungs cfg))" and p: "0 < GTI_pow cfg"
    by linarith+
  show "length (RungLadder cfg) = nat (sint (rungs cfg))"
    unfolding RungLadder_def by (rule ladder_powers_props(1) [OF n p])
  show "\<forall>k. k < nat (sint (rungs cfg)) \<longrightarrow>
         RungLadder cfg ! k = (real k / real (nat (sint (rungs cfg)) - 1)) powr GTI_pow cfg"
    unfolding RungLadder_def by (rule ladder_powers_props(2) [OF n p])
  show "\<forall>j k. j < k \<and> k < nat (sint (rungs cfg)) \<longrightarrow> RungLadder cfg ! j < RungLadder cfg ! k"
    unfolding RungLadder_def by (rule ladder_powers_props(3) [OF n p])
  show "RungLadder cfg ! 0 = 0"
    unfolding RungLadder_def by (rule ladder_powers_props(4) [OF n p])
  show "RungLadder cfg ! (nat (sint (rungs cfg)) - 1) = 1"
    unfolding RungLadder_def by (rule ladder_powers_props(5) [OF n p])
qed

theorem RungLadder_powers_witness:
  "RungLadder System_B ! 0 = 0 \<and> RungLadder System_B ! 4 = 1 \<and>
   RungLadder System_B ! 0 < RungLadder System_B ! 1 \<and>
   RungLadder System_B ! 1 < RungLadder System_B ! 2 \<and>
   RungLadder System_B ! 2 < RungLadder System_B ! 3 \<and>
   RungLadder System_B ! 3 < RungLadder System_B ! 4 \<and>
   RungLadder System_B ! 2 = (2 / 4) powr 2 \<and>
   RungLadder System_A = [1]"
proof -
  have B: "1 < sint (rungs System_B) \<and> 0 < GTI_pow System_B"
    by (simp add: System_B_def)
  have n: "nat (sint (rungs System_B)) = 5"
    by (simp add: System_B_def)
  have g: "GTI_pow System_B = 2"
    by (simp add: System_B_def)
  have A: "sint (rungs System_A) = 1"
    by (simp add: System_A_def)
  note L = RungLadder_powers [of System_B, THEN conjunct1, rule_format, OF B, unfolded n g]
  note mono = L [THEN conjunct2, THEN conjunct2, THEN conjunct1, rule_format]
  have "RungLadder System_B ! 2 = (2 / 4) powr 2"
    using L [THEN conjunct2, THEN conjunct1, rule_format, of 2] by simp
  moreover have "RungLadder System_B ! 4 = 1"
    using L by simp
  moreover have "RungLadder System_A = [1]"
    using RungLadder_powers [of System_A] A by blast
  ultimately show ?thesis
    using L mono [of 0 1] mono [of 1 2] mono [of 2 3] mono [of 3 4] by simp
qed

text \<open>
  Claim C7. For an adjacent pair of rungs \<open>(k, k + 1)\<close> with both coupling flags set, the
  swap is attempted and its acceptance probability is
  \<open>min 1 (exp ((\<beta> (k + 1) - \<beta> k) * (loglike k - loglike (k + 1))))\<close>, a number in
  \<open>(0, 1]\<close>; it is 1 when the two powers are equal, and when the two log-likelihoods are
  equal.
\<close>

theorem swap_acceptance_rule:
  assumes "k + 1 < length ladder" and "k + 1 < length coupling"
    and "coupling ! k" and "coupling ! (k + 1)"
  shows "\<exists>p. attempt_swap_probability coupling ladder k = Some p \<and>
           p = min 1 (exp ((beta (ladder ! (k + 1)) - beta (ladder ! k)) *
                           (loglike (ladder ! k) - loglike (ladder ! (k + 1))))) \<and>
           0 < p \<and> p \<le> 1 \<and>
           (beta (ladder ! k) = beta (ladder ! (k + 1)) \<longrightarrow> p = 1) \<and>
           (loglike (ladder ! k) = loglike (ladder ! (k + 1)) \<longrightarrow> p = 1)"
  using assms by (simp add: attempt_swap_probability_def swap_acceptance_def)

theorem swap_acceptance_rule_witness:
  "attempt_swap_probability [True, True]
     [\<lparr>beta = 0, loglike = -3\<rparr>, \<lparr>beta = 1, loglike = -3\<rparr>] 0 = Some 1 \<and>
   attempt_swap_probability [True, True, True]
     [\<lparr>beta = 0, loglike = -3\<rparr>, \<lparr>beta = 1/2, loglike = -2\<rparr>, \<lparr>beta = 1/2, loglike = -1\<rparr>] 1 = Some 1 \<and>
   attempt_swap_probability [True, True]
     [\<lparr>beta = 0, loglike = -3\<rparr>, \<lparr>beta = 1, loglike = -1\<rparr>] 0 = Some (exp (- 2))"
  using swap_acceptance_rule
      [of 0 "[\<lparr>beta = 0, loglike = -3\<rparr>, \<lparr>beta = 1, loglike = -3\<rparr>]" "[True, True]"]
    swap_acceptance_rule
      [of 1 "[\<lparr>beta = 0, loglike = -3\<rparr>, \<lparr>beta = 1/2, loglike = -2\<rparr>, \<lparr>beta = 1/2, loglike = -1\<rparr>]"
        "[True, True, True]"]
    swap_acceptance_rule
      [of 0 "[\<lparr>beta = 0, loglike = -3\<rparr>, \<lparr>beta = 1, loglike = -1\<rparr>]" "[True, True]"]
  by simp

end
